theory Spec2Isabelle
  imports Main
begin

section \<open>Values of the host language\<close>

text \<open>
  Perimeter.js (version 0.3.0, \<^verbatim>\<open>dist/perimeter.debug.js\<close>) is JavaScript. The part of
  the value universe the outline handling touches is modelled here:
  \<^item> a number is \<open>NaN\<close>, one of the two infinities, or a finite number. Finite numbers are
    modelled as exact integers (pixel counts); this agrees with IEEE doubles on the
    integers of magnitude below \<open>2^53\<close>. Fractions and the negative zero are outside the
    model;
  \<^item> an array entry is a number or \<open>undefined\<close> (a hole, or a read past the end);
  \<^item> an outline value is a number or an array of such entries. Strings, nested arrays
    and other objects are outside the model.
\<close>

datatype jsnum = NaN | PosInf | NegInf | Fin int

datatype prim = Undefined | Num jsnum

datatype jsval = Number jsnum | Array "prim list"

subsection \<open>Arithmetic and comparison of numbers\<close>

text \<open>
  The binary \<^verbatim>\<open>+\<close> and \<^verbatim>\<open>-\<close> on numbers: \<open>NaN\<close> is absorbing and the sum of opposite
  infinities is \<open>NaN\<close>.
\<close>

fun jneg :: "jsnum \<Rightarrow> jsnum" where
  "jneg NaN = NaN"
| "jneg PosInf = NegInf"
| "jneg NegInf = PosInf"
| "jneg (Fin a) = Fin (- a)"

fun jadd :: "jsnum \<Rightarrow> jsnum \<Rightarrow> jsnum" where
  "jadd NaN _ = NaN"
| "jadd _ NaN = NaN"
| "jadd (Fin a) (Fin b) = Fin (a + b)"
| "jadd PosInf NegInf = NaN"
| "jadd NegInf PosInf = NaN"
| "jadd PosInf _ = PosInf"
| "jadd _ PosInf = PosInf"
| "jadd NegInf _ = NegInf"
| "jadd _ NegInf = NegInf"

definition jsub :: "jsnum \<Rightarrow> jsnum \<Rightarrow> jsnum" where
  "jsub a b = jadd a (jneg b)"

text \<open>
  The relational operators: every comparison with \<open>NaN\<close> is false, so \<^verbatim>\<open>a >= b\<close> is not
  the negation of \<^verbatim>\<open>a < b\<close>.
\<close>

fun jlt :: "jsnum \<Rightarrow> jsnum \<Rightarrow> bool" where
  "jlt NaN _ = False"
| "jlt _ NaN = False"
| "jlt (Fin a) (Fin b) = (a < b)"
| "jlt PosInf _ = False"
| "jlt _ PosInf = True"
| "jlt _ NegInf = False"
| "jlt NegInf _ = True"

definition jgt :: "jsnum \<Rightarrow> jsnum \<Rightarrow> bool" where
  "jgt a b = jlt b a"

fun jge :: "jsnum \<Rightarrow> jsnum \<Rightarrow> bool" where
  "jge NaN _ = False"
| "jge _ NaN = False"
| "jge a b = (\<not> jlt a b)"

text \<open>\<^verbatim>\<open>ToNumber\<close> of an array entry: \<open>undefined\<close> converts to \<open>NaN\<close>.\<close>

fun toNumber :: "prim \<Rightarrow> jsnum" where
  "toNumber Undefined = NaN"
| "toNumber (Num n) = n"

text \<open>
  \<^verbatim>\<open>!v\<close> on an entry: \<open>undefined\<close>, \<open>NaN\<close> and \<open>0\<close> are the falsy ones.
\<close>

fun falsy :: "prim \<Rightarrow> bool" where
  "falsy Undefined = True"
| "falsy (Num NaN) = True"
| "falsy (Num (Fin a)) = (a = 0)"
| "falsy (Num _) = False"

text \<open>\<^verbatim>\<open>a || b\<close> on two finite host numbers: \<open>b\<close> when \<open>a\<close> is \<open>0\<close>.\<close>

definition orElse :: "int \<Rightarrow> int \<Rightarrow> int" where
  "orElse a b = (if a \<noteq> 0 then a else b)"

subsection \<open>\<^verbatim>\<open>parseInt\<close> and \<^verbatim>\<open>isNaN\<close>\<close>

text \<open>
  \<^verbatim>\<open>parseInt(v, 10)\<close> converts \<open>v\<close> to a string and reads the longest prefix of decimal
  digits after an optional sign. A finite integer of magnitude below \<open>10^21\<close> prints as
  its digits and is read back whole. From \<open>10^21\<close> on a number prints in exponent form
  (\<^verbatim>\<open>1.5e+21\<close>), of which only the digit before the point is read; the model takes the
  leading digit of the exact integer for it. \<^verbatim>\<open>NaN\<close>, \<^verbatim>\<open>Infinity\<close> and \<^verbatim>\<open>-Infinity\<close>
  hold no digit: the result is \<open>NaN\<close>.
\<close>

fun leadDigit :: "nat \<Rightarrow> nat" where
  "leadDigit n = (if n < 10 then n else leadDigit (n div 10))"

declare leadDigit.simps [simp del]

fun parseIntNum :: "jsnum \<Rightarrow> jsnum" where
  "parseIntNum (Fin a) =
     (if \<bar>a\<bar> < 10 ^ 21 then Fin a else Fin (sgn a * int (leadDigit (nat \<bar>a\<bar>))))"
| "parseIntNum _ = NaN"

text \<open>\<^verbatim>\<open>parseInt\<close> of an array entry; \<open>undefined\<close> prints as \<^verbatim>\<open>undefined\<close>.\<close>

fun parseIntPrim :: "prim \<Rightarrow> jsnum" where
  "parseIntPrim Undefined = NaN"
| "parseIntPrim (Num n) = parseIntNum n"

text \<open>
  An array prints as its entries joined by commas, \<open>undefined\<close> entries as the empty
  string. So \<^verbatim>\<open>parseInt\<close> of an array reads its first entry (nothing, when the array is
  empty or starts with a hole), and \<^verbatim>\<open>isNaN\<close> of an array, which converts that string to
  a number, is false for the empty string (the number \<open>0\<close>) and for a single numeric
  entry, and true as soon as there is a comma.
\<close>

fun parseInt :: "jsval \<Rightarrow> jsnum" where
  "parseInt (Number n) = parseIntNum n"
| "parseInt (Array []) = NaN"
| "parseInt (Array (Undefined # _)) = NaN"
| "parseInt (Array (Num n # _)) = parseIntNum n"

fun isNaN :: "jsval \<Rightarrow> bool" where
  "isNaN (Number n) = (n = NaN)"
| "isNaN (Array []) = False"
| "isNaN (Array [Undefined]) = False"
| "isNaN (Array [Num n]) = (n = NaN)"
| "isNaN (Array (_ # _ # _)) = True"

text \<open>
  \<^verbatim>\<open>outline[i]\<close>: a number has no indexed property, and an array read past its end gives
  \<open>undefined\<close>.
\<close>

fun idx :: "jsval \<Rightarrow> nat \<Rightarrow> prim" where
  "idx (Number n) i = Undefined"
| "idx (Array xs) i = (if i < length xs then xs ! i else Undefined)"

section \<open>Outline coercion\<close>

text \<open>
  \<^verbatim>\<open>Perimeter.prototype.formatOutline\<close>: the loop pushes four entries. When \<^verbatim>\<open>isNaN\<close>
  does not reject the whole argument, each entry is \<^verbatim>\<open>parseInt\<close> of the argument;
  otherwise entry \<open>i\<close> is \<open>0\<close> for a falsy \<^verbatim>\<open>outline[i]\<close> and \<^verbatim>\<open>parseInt(outline[i], 10)\<close>
  for the others. \<open>formatEntry\<close> is the value pushed in round \<open>i\<close>.
\<close>

definition formatEntry :: "jsval \<Rightarrow> nat \<Rightarrow> prim" where
  "formatEntry outline i =
     (if \<not> isNaN outline then Num (parseInt outline)
      else (if falsy (idx outline i) then Num (Fin 0)
            else Num (parseIntPrim (idx outline i))))"

function formatOutline_loop :: "jsval \<Rightarrow> nat \<Rightarrow> prim list \<Rightarrow> prim list" where
  "formatOutline_loop outline i arr =
     (if i < 4 then formatOutline_loop outline (i + 1) (arr @ [formatEntry outline i])
      else arr)"
  by pat_completeness auto
termination
  by (relation "measure (\<lambda>(outline, i, arr). 4 - i)") auto

definition formatOutline :: "jsval \<Rightarrow> jsval" where
  "formatOutline outline = Array (formatOutline_loop outline 0 [])"

section \<open>The host document\<close>

text \<open>
  What the library reads from the DOM. Host geometry (offsets, scroll positions, pointer
  coordinates, the bounding box) is modelled in whole pixels. An element whose
  \<^verbatim>\<open>getBoundingClientRect\<close> is \<^verbatim>\<open>undefined\<close> has \<open>boundingClientRect = None\<close>. An element is
  held by value: a layout change of the host is a change of the value.
\<close>

record box =
  box_top :: int
  box_left :: int
  box_width :: int
  box_height :: int

record element =
  offsetTop :: int
  offsetLeft :: int
  offsetWidth :: int
  offsetHeight :: int
  boundingClientRect :: "box option"

record document =
  docElem_scrollTop :: int
  docElem_scrollLeft :: int
  docElem_clientTop :: int
  docElem_clientLeft :: int
  docBody_scrollTop :: int
  docBody_scrollLeft :: int
  elementsById :: "(string \<times> element) list"

record event =
  clientX :: int
  clientY :: int

datatype error = TypeError | Error string

section \<open>The Perimeter object\<close>

text \<open>
  \<^verbatim>\<open>options.target\<close> is absent, an element identifier or an element; \<^verbatim>\<open>options.outline\<close>
  is absent or an outline value; \<^verbatim>\<open>options.monitor\<close> names another event source. The two
  callbacks are opaque to the library: the model keeps whether each is a function, and
  records every call the library makes.
\<close>

datatype targetArg = NoTarget | ById string | Elem element

record options =
  opt_target :: targetArg
  opt_outline :: "jsval option"
  opt_monitor :: "string option"
  debug :: bool
  onBreach :: bool
  onLeave :: bool

record scrollPos =
  top :: int
  left :: int

record clientRect =
  width :: int
  height :: int
  rect_top :: int
  rect_left :: int

text \<open>The debug overlay: the four style values \<^verbatim>\<open>Boundary.reflow\<close> assigns to its element.\<close>

record boundaryBox =
  style_top :: jsnum
  style_left :: jsnum
  style_width :: jsnum
  style_height :: jsnum

text \<open>
  The fields the constructor sets. \<open>monitor_event\<close> is the \<^verbatim>\<open>event\<close> field of the
  instance's \<^verbatim>\<open>Monitor\<close>.
\<close>

record perimeter =
  options :: options
  breaches :: "(int \<times> int) list"
  alarm :: bool
  outline :: jsval
  target :: "element option"
  boundary :: "boundaryBox option"
  rects :: clientRect
  monitor_event :: "event option"

subsection \<open>Geometry\<close>

definition getScrollPos :: "document \<Rightarrow> scrollPos" where
  "getScrollPos d =
     \<lparr> top = orElse (docElem_scrollTop d) (docBody_scrollTop d),
       left = orElse (docElem_scrollLeft d) (docBody_scrollLeft d) \<rparr>"

text \<open>
  \<^verbatim>\<open>getClientRect\<close>. Reading \<^verbatim>\<open>elem.getBoundingClientRect\<close> of \<^verbatim>\<open>null\<close> is a
  \<^verbatim>\<open>TypeError\<close> of the language; a missing method is the library's own \<^verbatim>\<open>Error\<close>.
\<close>

definition unsupported :: string where
  "unsupported =
     ''Perimeter.js detected that your browser does not support getBoundingClientRect''"

definition getClientRect :: "document \<Rightarrow> element option \<Rightarrow> error + clientRect" where
  "getClientRect d elem =
     (let scrollPos = getScrollPos d in
      case elem of
        None \<Rightarrow> Inl TypeError
      | Some el \<Rightarrow>
          (case boundingClientRect el of
             None \<Rightarrow> Inl (Error unsupported)
           | Some b \<Rightarrow>
               Inr \<lparr> width = orElse (box_width b) (offsetWidth el),
                     height = orElse (box_height b) (offsetHeight el),
                     rect_top = box_top b + top scrollPos - docElem_clientTop d,
                     rect_left = box_left b + left scrollPos - docElem_clientLeft d \<rparr>))"

subsection \<open>Callbacks\<close>

text \<open>
  \<^verbatim>\<open>trigger\<close>: a missing payload is replaced by the string \<^verbatim>\<open>typeof undefined\<close>; the
  callback registered for the event type is called when it is a function.
\<close>

datatype payload = EventObject event | UndefinedString

datatype call = OnBreach payload | OnLeave payload

definition trigger :: "perimeter \<Rightarrow> string \<Rightarrow> event option \<Rightarrow> call list" where
  "trigger p ev eData =
     (let data = (case eData of None \<Rightarrow> UndefinedString | Some e \<Rightarrow> EventObject e) in
      if ev = ''breach'' \<and> onBreach (options p) then [OnBreach data]
      else if ev = ''leave'' \<and> onLeave (options p) then [OnLeave data]
      else [])"

subsection \<open>The monitor\<close>

text \<open>
  The locals of \<^verbatim>\<open>Monitor.detect\<close> and its two tests. \<open>t\<close> is the target element and
  \<open>e\<close> the event, both already read.
\<close>

definition maxTop :: "document \<Rightarrow> perimeter \<Rightarrow> element \<Rightarrow> jsnum" where
  "maxTop d p t =
     parseIntNum (jsub (jsub (Fin (offsetTop t)) (Fin (top (getScrollPos d))))
                       (toNumber (idx (outline p) 0)))"

definition maxLeft :: "document \<Rightarrow> perimeter \<Rightarrow> element \<Rightarrow> jsnum" where
  "maxLeft d p t =
     parseIntNum (jsub (jsub (Fin (offsetLeft t)) (Fin (left (getScrollPos d))))
                       (toNumber (idx (outline p) 3)))"

definition lowerEdge :: "document \<Rightarrow> perimeter \<Rightarrow> element \<Rightarrow> jsnum" where
  "lowerEdge d p t =
     jadd (jadd (maxTop d p t) (Fin (height (rects p))))
          (jadd (toNumber (idx (outline p) 0)) (toNumber (idx (outline p) 2)))"

definition rightEdge :: "document \<Rightarrow> perimeter \<Rightarrow> element \<Rightarrow> jsnum" where
  "rightEdge d p t =
     jadd (jadd (maxLeft d p t) (Fin (width (rects p))))
          (jadd (toNumber (idx (outline p) 1)) (toNumber (idx (outline p) 3)))"

definition breachTest :: "document \<Rightarrow> perimeter \<Rightarrow> element \<Rightarrow> event \<Rightarrow> bool" where
  "breachTest d p t e =
     (jge (Fin (clientY e)) (maxTop d p t) \<and>
      jlt (Fin (clientY e)) (lowerEdge d p t) \<and>
      jge (Fin (clientX e)) (maxLeft d p t) \<and>
      jlt (Fin (clientX e)) (rightEdge d p t))"

definition leaveTest :: "document \<Rightarrow> perimeter \<Rightarrow> element \<Rightarrow> event \<Rightarrow> bool" where
  "leaveTest d p t e =
     (jlt (Fin (clientY e)) (maxTop d p t) \<or>
      jgt (Fin (clientY e)) (lowerEdge d p t) \<or>
      jlt (Fin (clientX e)) (maxLeft d p t) \<or>
      jgt (Fin (clientX e)) (rightEdge d p t))"

text \<open>
  \<^verbatim>\<open>detect\<close> returns the error raised (if any), the instance afterwards and the
  callbacks called. Reading \<^verbatim>\<open>clientX\<close> of a \<^verbatim>\<open>null\<close> event or \<^verbatim>\<open>offsetTop\<close> of a \<^verbatim>\<open>null\<close>
  target raises before anything is written. Any state other than \<^verbatim>\<open>breach\<close> and
  \<^verbatim>\<open>leave\<close> falls through the switch.
\<close>

definition detect ::
  "document \<Rightarrow> perimeter \<Rightarrow> string \<Rightarrow> error option \<times> perimeter \<times> call list" where
  "detect d p state =
     (case monitor_event p of
        None \<Rightarrow> (Some TypeError, p, [])
      | Some e \<Rightarrow>
          (case target p of
             None \<Rightarrow> (Some TypeError, p, [])
           | Some t \<Rightarrow>
               if state = ''breach'' then
                 (if breachTest d p t e then
                    (None,
                     p\<lparr>breaches := breaches p @ [(clientX e, clientY e)], alarm := True\<rparr>,
                     trigger p ''breach'' (Some e))
                  else (None, p, []))
               else if state = ''leave'' then
                 (if leaveTest d p t e then
                    (None, p\<lparr>alarm := False\<rparr>, trigger p ''leave'' None)
                  else (None, p, []))
               else (None, p, [])))"

text \<open>
  \<^verbatim>\<open>observe\<close> stores the event (the host passes one; the \<^verbatim>\<open>window.event\<close> fallback
  of old hosts is the same value under another name) and runs the test that the alarm
  flag selects.
\<close>

definition observe ::
  "document \<Rightarrow> perimeter \<Rightarrow> event \<Rightarrow> error option \<times> perimeter \<times> call list" where
  "observe d p e =
     (let p1 = p\<lparr>monitor_event := Some e\<rparr> in
      detect d p1 (if alarm p1 then ''leave'' else ''breach''))"

text \<open>
  A run of pointer updates delivered to one instance, in order, with the callbacks
  called along the way. The run is cut at the first update that raises.
\<close>

fun observeAll ::
  "document \<Rightarrow> perimeter \<Rightarrow> event list \<Rightarrow> error option \<times> perimeter \<times> call list" where
  "observeAll d p [] = (None, p, [])"
| "observeAll d p (e # es) =
     (case observe d p e of
        (Some err, p1, cs) \<Rightarrow> (Some err, p1, cs)
      | (None, p1, cs) \<Rightarrow>
          (case observeAll d p1 es of (r, p2, cs2) \<Rightarrow> (r, p2, cs @ cs2)))"

subsection \<open>The debug overlay\<close>

text \<open>
  \<^verbatim>\<open>_recalculateRect\<close> reads \<^verbatim>\<open>perimeter.rects || perimeter.getClientRect(target)\<close>; the
  cached rectangle is an object, hence truthy, so the right operand is never evaluated.
  \<^verbatim>\<open>reflow\<close> takes both of its arguments optionally; a falsy outline argument (absent,
  \<open>0\<close> or \<open>NaN\<close>) is replaced by the instance's outline.
\<close>

fun truthy :: "jsval \<Rightarrow> bool" where
  "truthy (Number NaN) = False"
| "truthy (Number (Fin a)) = (a \<noteq> 0)"
| "truthy (Number _) = True"
| "truthy (Array _) = True"

definition recalculateRect :: "perimeter \<Rightarrow> element option \<Rightarrow> jsval \<Rightarrow> boundaryBox" where
  "recalculateRect p tgt ol =
     (let r = rects p in
      \<lparr> style_top = jsub (Fin (rect_top r)) (toNumber (idx ol 0)),
        style_left = jsub (Fin (rect_left r)) (toNumber (idx ol 3)),
        style_width = jadd (Fin (width r)) (jadd (toNumber (idx ol 1)) (toNumber (idx ol 3))),
        style_height = jadd (Fin (height r)) (jadd (toNumber (idx ol 0)) (toNumber (idx ol 2))) \<rparr>)"

definition reflow :: "perimeter \<Rightarrow> element option \<Rightarrow> jsval option \<Rightarrow> boundaryBox" where
  "reflow p tgt ol =
     (let bx = (case tgt of None \<Rightarrow> target p | Some t \<Rightarrow> Some t);
          ol1 = formatOutline
                  (case ol of None \<Rightarrow> outline p
                   | Some v \<Rightarrow> if truthy v then v else outline p)
      in recalculateRect p bx ol1)"

text \<open>\<^verbatim>\<open>new Boundary(perimeter)\<close> returns \<^verbatim>\<open>create()\<close>, which reflows the new element once.\<close>

definition Boundary :: "perimeter \<Rightarrow> boundaryBox" where
  "Boundary p = reflow p (target p) (Some (outline p))"

section \<open>The registry and construction\<close>

text \<open>
  The state of the page: the document, the module's \<^verbatim>\<open>instances\<close> array and the
  listeners bound so far. The registry holds the instances themselves, so an instance
  is addressed by its index there. A handler is the \<^verbatim>\<open>observe\<close> closure of one instance
  or the unbound \<^verbatim>\<open>recalculate\<close> method. \<^verbatim>\<open>_addEventListener\<close> binds through whichever event
  model the host offers.
\<close>

datatype eventModel = W3C | Microsoft | NoEventModel

datatype source = Doc | Win | MonitorSource string

datatype handler = ObserveOf nat | RecalculateUnbound

record listener =
  on_source :: source
  on_event :: string
  on_handler :: handler

record world =
  doc :: document
  eventModel :: eventModel
  instances :: "perimeter list"
  listeners :: "listener list"

definition addEventListener :: "world \<Rightarrow> source \<Rightarrow> string \<Rightarrow> handler \<Rightarrow> world" where
  "addEventListener w obj evt fn =
     (case eventModel w of
        W3C \<Rightarrow>
          w\<lparr>listeners := listeners w @ [\<lparr>on_source = obj, on_event = evt, on_handler = fn\<rparr>]\<rparr>
      | Microsoft \<Rightarrow>
          w\<lparr>listeners :=
              listeners w @ [\<lparr>on_source = obj, on_event = ''on'' @ evt, on_handler = fn\<rparr>]\<rparr>
      | NoEventModel \<Rightarrow> w)"

text \<open>
  \<^verbatim>\<open>init\<close>: nothing happens for a missing target; otherwise the instance is pushed on the
  registry, the overlay is created in debug mode (this build defines \<^verbatim>\<open>Boundary\<close>), and
  the four listeners are bound.
\<close>

definition init :: "world \<Rightarrow> perimeter \<Rightarrow> options \<Rightarrow> world \<times> perimeter" where
  "init w this opts =
     (if target this = None then (w, this)
      else
        (let k = length (instances w);
             this1 = (if debug opts then this\<lparr>boundary := Some (Boundary this)\<rparr> else this);
             w1 = w\<lparr>instances := instances w @ [this1]\<rparr>;
             w2 = addEventListener w1
                    (case opt_monitor opts of None \<Rightarrow> Doc | Some m \<Rightarrow> MonitorSource m)
                    ''mousemove'' (ObserveOf k);
             w3 = addEventListener w2 Win ''resize'' RecalculateUnbound;
             w4 = addEventListener w3 Doc ''DOMMouseScroll'' (ObserveOf k);
             w5 = addEventListener w4 Doc ''mousewheel'' (ObserveOf k)
         in (w5, this1)))"

text \<open>
  The constructor. \<open>Inert\<close> is the early return (an object without fields under
  \<^verbatim>\<open>new\<close>, \<^verbatim>\<open>undefined\<close> in a plain call), \<open>Raised\<close> an exception leaving the constructor,
  \<open>Constructed\<close> the instance with its fields set. A plain call past the guard
  re-enters with \<^verbatim>\<open>new\<close>, so both kinds of call run the same steps.
\<close>

datatype result = Inert | Raised error | Constructed perimeter

fun noTarget :: "targetArg \<Rightarrow> bool" where
  "noTarget NoTarget = True"
| "noTarget (ById s) = (s = [])"
| "noTarget (Elem e) = False"

fun getElementById :: "document \<Rightarrow> string \<Rightarrow> element option" where
  "getElementById d s = map_of (elementsById d) s"

definition Perimeter :: "world \<Rightarrow> options option \<Rightarrow> world \<times> result" where
  "Perimeter w optarg =
     (case optarg of
        None \<Rightarrow> (w, Inert)
      | Some opts \<Rightarrow>
          if noTarget (opt_target opts) then (w, Inert)
          else
            (case opt_outline opts of
               None \<Rightarrow> (w, Inert)
             | Some ol \<Rightarrow>
                 if \<not> truthy ol then (w, Inert)
                 else
                   (let ol1 = formatOutline ol;
                        tgt = (case opt_target opts of
                                 ById s \<Rightarrow> getElementById (doc w) s
                               | Elem e \<Rightarrow> Some e
                               | NoTarget \<Rightarrow> None)
                    in case getClientRect (doc w) tgt of
                         Inl err \<Rightarrow> (w, Raised err)
                       | Inr r \<Rightarrow>
                           (case init w
                                   \<lparr> options = opts, breaches = [], alarm = False,
                                     outline = ol1, target = tgt, boundary = None,
                                     rects = r, monitor_event = None \<rparr>
                                   opts
                            of (w1, this) \<Rightarrow> (w1, Constructed this)))))"

section \<open>Recalculation\<close>

text \<open>
  \<^verbatim>\<open>recalculate\<close> branches on its receiver. Called on an instance it re-formats that
  instance's outline and reflows its overlay. Called with any other receiver (it is
  bound unbound to the window's \<^verbatim>\<open>resize\<close>) it walks the registry from the last
  instance to the first, replaces each cached rectangle by \<^verbatim>\<open>getClientRect\<close> of the
  target and reflows the overlay; an exception of \<^verbatim>\<open>getClientRect\<close> ends the walk. An
  instance outside the registry is an inert one: it has no \<^verbatim>\<open>outline\<close>, and indexing
  \<^verbatim>\<open>undefined\<close> in \<^verbatim>\<open>formatOutline\<close> is a \<^verbatim>\<open>TypeError\<close>.
\<close>

datatype receiver = ThisInstance nat | ThisWindow

definition reflowIfDebug :: "perimeter \<Rightarrow> perimeter" where
  "reflowIfDebug p =
     (if debug (options p) \<and> boundary p \<noteq> None
      then p\<lparr>boundary := Some (reflow p None None)\<rparr> else p)"

fun recalculate_loop ::
  "document \<Rightarrow> perimeter list \<Rightarrow> nat \<Rightarrow> error option \<times> perimeter list" where
  "recalculate_loop d insts 0 = (None, insts)"
| "recalculate_loop d insts (Suc i) =
     (case getClientRect d (target (insts ! i)) of
        Inl err \<Rightarrow> (Some err, insts)
      | Inr r \<Rightarrow>
          recalculate_loop d (insts[i := reflowIfDebug ((insts ! i)\<lparr>rects := r\<rparr>)]) i)"

definition recalculate :: "world \<Rightarrow> receiver \<Rightarrow> error option \<times> world" where
  "recalculate w this =
     (case this of
        ThisInstance k \<Rightarrow>
          if k < length (instances w) then
            (let inst = instances w ! k;
                 inst1 = inst\<lparr>outline := formatOutline (outline inst)\<rparr>
             in (None, w\<lparr>instances := (instances w)[k := reflowIfDebug inst1]\<rparr>))
          else (Some TypeError, w)
      | ThisWindow \<Rightarrow>
          (case recalculate_loop (doc w) (instances w) (length (instances w)) of
             (r, insts) \<Rightarrow> (r, w\<lparr>instances := insts\<rparr>)))"

section \<open>Input classes and example pages\<close>

text \<open>
  \<open>isFinite\<close> is the host's predicate of that name on numbers. An outline argument is
  \<open>regular\<close> when it is a number other than an infinity, or an array of two or more
  entries none of which is an infinity.
\<close>

fun isFinite :: "jsnum \<Rightarrow> bool" where
  "isFinite (Fin a) = True"
| "isFinite _ = False"

fun regular :: "jsval \<Rightarrow> bool" where
  "regular (Number n) = (n \<noteq> PosInf \<and> n \<noteq> NegInf)"
| "regular (Array xs) = (2 \<le> length xs \<and> Num PosInf \<notin> set xs \<and> Num NegInf \<notin> set xs)"

text \<open>
  A page without scroll offset. \<open>boxElement\<close> is a 50 by 50 element at (100, 100) whose
  offset parent is the body; \<open>nestedElement\<close> has the same bounding box but sits at the
  origin of a positioned container, so its layout offsets are 0; \<open>legacyElement\<close> has no
  \<^verbatim>\<open>getBoundingClientRect\<close>.
\<close>

definition boxElement :: element where
  "boxElement =
     \<lparr> offsetTop = 100, offsetLeft = 100, offsetWidth = 50, offsetHeight = 50,
       boundingClientRect =
         Some \<lparr> box_top = 100, box_left = 100, box_width = 50, box_height = 50 \<rparr> \<rparr>"

definition nestedElement :: element where
  "nestedElement = boxElement\<lparr>offsetTop := 0, offsetLeft := 0\<rparr>"

definition legacyElement :: element where
  "legacyElement = boxElement\<lparr>boundingClientRect := None\<rparr>"

definition page :: document where
  "page =
     \<lparr> docElem_scrollTop = 0, docElem_scrollLeft = 0, docElem_clientTop = 0,
       docElem_clientLeft = 0, docBody_scrollTop = 0, docBody_scrollLeft = 0,
       elementsById = [(''box'', boxElement)] \<rparr>"

definition emptyWorld :: world where
  "emptyWorld = \<lparr> doc = page, eventModel = W3C, instances = [], listeners = [] \<rparr>"

definition plainOptions :: "targetArg \<Rightarrow> jsval \<Rightarrow> options" where
  "plainOptions t v =
     \<lparr> opt_target = t, opt_outline = Some v, opt_monitor = None, debug = False,
       onBreach = True, onLeave = True \<rparr>"

definition zeroOutline :: jsval where
  "zeroOutline = Array [Num (Fin 0), Num (Fin 0), Num (Fin 0), Num (Fin 0)]"

text \<open>The instance \<^verbatim>\<open>new Perimeter({target: el, outline: [0, 0, 0, 0]})\<close> builds on \<open>page\<close>.\<close>

definition armed :: "element \<Rightarrow> perimeter" where
  "armed el =
     \<lparr> options = plainOptions (Elem el) zeroOutline,
       breaches = [], alarm = False, outline = zeroOutline,
       target = Some el, boundary = None,
       rects = \<lparr> width = 50, height = 50, rect_top = 100, rect_left = 100 \<rparr>,
       monitor_event = None \<rparr>"

text \<open>The same instance after the pointer update at (125, 125) has breached it.\<close>

definition breached :: "element \<Rightarrow> perimeter" where
  "breached el =
     (armed el)\<lparr>breaches := [(125, 125)], alarm := True,
        monitor_event := Some \<lparr>clientX = 125, clientY = 125\<rparr>\<rparr>"

text \<open>
  A page after a layout change and an outside write: the registered instance's target
  now sits at (300, 100) while the cached rectangle is still the one of (100, 100), and
  its \<^verbatim>\<open>outline\<close> field has been set to the number 20.
\<close>

definition movedElement :: element where
  "movedElement =
     boxElement\<lparr>offsetTop := 300,
       boundingClientRect :=
         Some \<lparr> box_top = 300, box_left = 100, box_width = 50, box_height = 50 \<rparr>\<rparr>"

definition staleWorld :: world where
  "staleWorld =
     emptyWorld\<lparr>instances :=
       [(armed boxElement)\<lparr>target := Some movedElement, outline := Number (Fin 20)\<rparr>]\<rparr>"

section \<open>Properties of the outline coercion\<close>

lemma formatOutline_entries:
  "formatOutline v = Array [formatEntry v 0, formatEntry v 1, formatEntry v 2, formatEntry v 3]"
  by (simp add: formatOutline_def numeral_2_eq_2 numeral_3_eq_3)

lemma leadDigit_less: "leadDigit n < 10"
proof (induction n rule: leadDigit.induct)
  case (1 n)
  show ?case
  proof (cases "n < 10")
    case True
    then show ?thesis by (subst leadDigit.simps) simp
  next
    case False
    with 1 show ?thesis by (subst leadDigit.simps) simp
  qed
qed

lemma parseIntNum_Fin: "\<exists>b. parseIntNum (Fin a) = Fin b \<and> \<bar>b\<bar> < 10 ^ 21"
proof (cases "\<bar>a\<bar> < 10 ^ 21")
  case True
  then show ?thesis by simp
next
  case False
  have "int (leadDigit (nat \<bar>a\<bar>)) < 10" using leadDigit_less [of "nat \<bar>a\<bar>"] by simp
  then have "\<bar>sgn a * int (leadDigit (nat \<bar>a\<bar>))\<bar> < 10 ^ 21"
    by (simp add: abs_mult abs_sgn_eq)
  with False show ?thesis by simp
qed

lemma parseIntNum_cases: "parseIntNum n = NaN \<or> (\<exists>b. parseIntNum n = Fin b)"
  by (cases n) auto

lemma parseInt_cases: "parseInt v = NaN \<or> (\<exists>b. parseInt v = Fin b)"
  using parseIntNum_cases by (cases v rule: parseInt.cases) auto

lemma formatEntry_cases:
  "formatEntry v i = Num NaN \<or> (\<exists>b. formatEntry v i = Num (Fin b))"
proof (cases "idx v i")
  case Undefined
  then show ?thesis using parseInt_cases [of v] by (auto simp: formatEntry_def)
next
  case (Num n)
  then show ?thesis
    using parseInt_cases [of v] parseIntNum_cases [of n] by (auto simp: formatEntry_def)
qed

lemma isNaN_long_Array: "2 \<le> length xs \<Longrightarrow> isNaN (Array xs)"
proof (cases xs)
  case Nil
  then show "2 \<le> length xs \<Longrightarrow> ?thesis" by simp
next
  case (Cons x ys)
  then show "2 \<le> length xs \<Longrightarrow> ?thesis" by (cases ys) auto
qed

lemma formatEntry_regular:
  assumes "regular v"
  shows "\<exists>b. formatEntry v i = Num (Fin b)"
proof (cases v)
  case (Number n)
  with assms show ?thesis
    using parseIntNum_Fin by (cases n) (auto simp: formatEntry_def)
next
  case (Array xs)
  with assms have nan: "isNaN v" and inf: "Num PosInf \<notin> set xs" "Num NegInf \<notin> set xs"
    by (simp_all add: isNaN_long_Array)
  show ?thesis
  proof (cases "falsy (idx v i)")
    case True
    with nan show ?thesis by (simp add: formatEntry_def)
  next
    case False
    with Array have len: "i < length xs" by (auto split: if_splits)
    with Array have mem: "idx v i \<in> set xs" by simp
    from False obtain n where n: "idx v i = Num n" by (cases "idx v i") auto
    with mem inf have "n \<noteq> PosInf" "n \<noteq> NegInf" by auto
    with False n obtain a where "n = Fin a" by (cases n) auto
    with n nan False show ?thesis
      using parseIntNum_Fin [of a] by (auto simp: formatEntry_def)
  qed
qed

lemma formatEntry_falsy:
  "isNaN v \<Longrightarrow> falsy (idx v i) \<Longrightarrow> formatEntry v i = Num (Fin 0)"
  by (simp add: formatEntry_def)

text \<open>
  Claim C5, as amended. For every outline argument (a number, or a sequence of numbers
  and missing entries) \<^verbatim>\<open>formatOutline\<close> returns exactly four entries, each a number that
  is a finite integer or \<open>NaN\<close>, never an infinity. All four are finite integers when
  the argument is regular: a number other than an infinity, or a sequence of two or
  more entries none of which is an infinity. Where the argument as a whole is not a
  number, every falsy entry of it (missing, \<open>NaN\<close> or \<open>0\<close>) becomes \<open>0\<close>.
\<close>

theorem formatOutline_result:
  "\<exists>a b c d.
     formatOutline v = Array [Num a, Num b, Num c, Num d] \<and>
     a \<noteq> PosInf \<and> a \<noteq> NegInf \<and> b \<noteq> PosInf \<and> b \<noteq> NegInf \<and>
     c \<noteq> PosInf \<and> c \<noteq> NegInf \<and> d \<noteq> PosInf \<and> d \<noteq> NegInf \<and>
     (regular v \<longrightarrow> isFinite a \<and> isFinite b \<and> isFinite c \<and> isFinite d) \<and>
     (isNaN v \<longrightarrow>
        (falsy (idx v 0) \<longrightarrow> a = Fin 0) \<and> (falsy (idx v 1) \<longrightarrow> b = Fin 0) \<and>
        (falsy (idx v 2) \<longrightarrow> c = Fin 0) \<and> (falsy (idx v 3) \<longrightarrow> d = Fin 0))"
proof -
  obtain a where a: "formatEntry v 0 = Num a" "a \<noteq> PosInf" "a \<noteq> NegInf"
    using formatEntry_cases [of v 0] by auto
  obtain b where b: "formatEntry v 1 = Num b" "b \<noteq> PosInf" "b \<noteq> NegInf"
    using formatEntry_cases [of v 1] by auto
  obtain c where c: "formatEntry v 2 = Num c" "c \<noteq> PosInf" "c \<noteq> NegInf"
    using formatEntry_cases [of v 2] by auto
  obtain d where d: "formatEntry v 3 = Num d" "d \<noteq> PosInf" "d \<noteq> NegInf"
    using formatEntry_cases [of v 3] by auto
  have shape: "formatOutline v = Array [Num a, Num b, Num c, Num d]"
    using a(1) b(1) c(1) d(1) by (simp add: formatOutline_entries)
  have fin: "isFinite a \<and> isFinite b \<and> isFinite c \<and> isFinite d" if "regular v"
    using formatEntry_regular [OF that, of 0] formatEntry_regular [OF that, of 1]
      formatEntry_regular [OF that, of 2] formatEntry_regular [OF that, of 3]
      a(1) b(1) c(1) d(1)
    by auto
  have zero: "(falsy (idx v 0) \<longrightarrow> a = Fin 0) \<and> (falsy (idx v 1) \<longrightarrow> b = Fin 0) \<and>
        (falsy (idx v 2) \<longrightarrow> c = Fin 0) \<and> (falsy (idx v 3) \<longrightarrow> d = Fin 0)" if "isNaN v"
    using formatEntry_falsy [OF that, of 0] formatEntry_falsy [OF that, of 1]
      formatEntry_falsy [OF that, of 2] formatEntry_falsy [OF that, of 3]
      a(1) b(1) c(1) d(1)
    by auto
  from shape a(2,3) b(2,3) c(2,3) d(2,3) fin zero show ?thesis by blast
qed

theorem formatOutline_result_witness:
  "regular (Array [Num (Fin 3), Undefined, Num NaN]) \<and>
   isNaN (Array [Num (Fin 3), Undefined, Num NaN]) \<and>
   falsy (idx (Array [Num (Fin 3), Undefined, Num NaN]) 1) \<and>
   falsy (idx (Array [Num (Fin 3), Undefined, Num NaN]) 2) \<and>
   falsy (idx (Array [Num (Fin 3), Undefined, Num NaN]) 3) \<and>
   (\<exists>a. formatOutline (Array [Num (Fin 3), Undefined, Num NaN]) =
          Array [Num a, Num (Fin 0), Num (Fin 0), Num (Fin 0)] \<and> isFinite a)"
  using formatOutline_result [of "Array [Num (Fin 3), Undefined, Num NaN]"]
  by auto

text \<open>
  Claim C5 as stated fails: the number \<^verbatim>\<open>Infinity\<close> is accepted, \<^verbatim>\<open>isNaN\<close> does not reject
  it, and \<^verbatim>\<open>parseInt\<close> of its print is \<open>NaN\<close> in all four places.
\<close>

theorem formatOutline_infinity:
  "formatOutline (Number PosInf) = Array [Num NaN, Num NaN, Num NaN, Num NaN]"
  by (simp add: formatOutline_entries formatEntry_def)

lemma formatOutline_finite:
  "formatOutline (Array [Num (Fin a), Num (Fin b), Num (Fin c), Num (Fin d)]) =
   Array [Num (if a = 0 then Fin 0 else parseIntNum (Fin a)),
          Num (if b = 0 then Fin 0 else parseIntNum (Fin b)),
          Num (if c = 0 then Fin 0 else parseIntNum (Fin c)),
          Num (if d = 0 then Fin 0 else parseIntNum (Fin d))]"
  by (simp add: formatOutline_entries formatEntry_def del: parseIntNum.simps)

lemma normalised_entry:
  "\<exists>a'. (if a = 0 then Fin 0 else parseIntNum (Fin a)) = Fin a' \<and>
        (if a' = 0 then Fin 0 else parseIntNum (Fin a')) = Fin a'"
proof -
  obtain a' where a': "parseIntNum (Fin a) = Fin a'" "\<bar>a'\<bar> < 10 ^ 21"
    using parseIntNum_Fin by blast
  show ?thesis
  proof (cases "a = 0")
    case True
    then show ?thesis by simp
  next
    case False
    with a' show ?thesis by simp
  qed
qed

text \<open>
  Claim C8. \<^verbatim>\<open>formatOutline\<close> is idempotent on every 4-element outline of finite
  integers, the valid outlines (four non-negative integers) among them:
  formatting the formatted outline gives the formatted outline.
\<close>

theorem formatOutline_idempotent:
  "formatOutline (formatOutline (Array [Num (Fin a), Num (Fin b), Num (Fin c), Num (Fin d)])) =
   formatOutline (Array [Num (Fin a), Num (Fin b), Num (Fin c), Num (Fin d)])"
proof -
  obtain a' where a': "(if a = 0 then Fin 0 else parseIntNum (Fin a)) = Fin a'"
      "(if a' = 0 then Fin 0 else parseIntNum (Fin a')) = Fin a'"
    using normalised_entry [of a] by blast
  obtain b' where b': "(if b = 0 then Fin 0 else parseIntNum (Fin b)) = Fin b'"
      "(if b' = 0 then Fin 0 else parseIntNum (Fin b')) = Fin b'"
    using normalised_entry [of b] by blast
  obtain c' where c': "(if c = 0 then Fin 0 else parseIntNum (Fin c)) = Fin c'"
      "(if c' = 0 then Fin 0 else parseIntNum (Fin c')) = Fin c'"
    using normalised_entry [of c] by blast
  obtain d' where d': "(if d = 0 then Fin 0 else parseIntNum (Fin d)) = Fin d'"
      "(if d' = 0 then Fin 0 else parseIntNum (Fin d')) = Fin d'"
    using normalised_entry [of d] by blast
  have first: "formatOutline (Array [Num (Fin a), Num (Fin b), Num (Fin c), Num (Fin d)]) =
      Array [Num (Fin a'), Num (Fin b'), Num (Fin c'), Num (Fin d')]"
    unfolding formatOutline_finite using a'(1) b'(1) c'(1) d'(1) by simp
  have second: "formatOutline (Array [Num (Fin a'), Num (Fin b'), Num (Fin c'), Num (Fin d')]) =
      Array [Num (Fin a'), Num (Fin b'), Num (Fin c'), Num (Fin d')]"
    unfolding formatOutline_finite using a'(2) b'(2) c'(2) d'(2) by simp
  show ?thesis by (simp only: first second)
qed

section \<open>Properties of construction and of the geometry resolver\<close>

text \<open>
  Claim C1 does not hold of the code. With a target identifier that no element of the
  document carries, \<^verbatim>\<open>getElementById\<close> gives \<^verbatim>\<open>null\<close>, and the constructor calls
  \<^verbatim>\<open>getClientRect(null)\<close> before it reaches \<^verbatim>\<open>init\<close>: the \<^verbatim>\<open>TypeError\<close> leaves the
  constructor, and the guard of \<^verbatim>\<open>init\<close> for a missing target is never reached.
\<close>

theorem missing_target_raises:
  "Perimeter emptyWorld (Some (plainOptions (ById ''missing'') (Number (Fin 10)))) =
   (emptyWorld, Raised TypeError)"
  by (simp add: Perimeter_def plainOptions_def emptyWorld_def page_def getClientRect_def)

text \<open>
  Claim C9. For an element without \<^verbatim>\<open>getBoundingClientRect\<close>, \<^verbatim>\<open>getClientRect\<close> returns no
  rectangle: it raises the library's error.
\<close>

theorem getClientRect_unsupported:
  "boundingClientRect el = None \<Longrightarrow> getClientRect d (Some el) = Inl (Error unsupported)"
  by (simp add: getClientRect_def)

theorem getClientRect_unsupported_witness:
  "boundingClientRect legacyElement = None \<and>
   getClientRect page (Some legacyElement) = Inl (Error unsupported)"
  using getClientRect_unsupported [of legacyElement page]
  by (simp add: legacyElement_def)

text \<open>
  Claim C10. With the scalar outline \<open>0\<close> the constructor returns at its first guard,
  whatever the target: the result is the inert instance and the page (registry and
  listeners) is as before.
\<close>

theorem zero_outline_inert:
  "opt_outline opts = Some (Number (Fin 0)) \<Longrightarrow> Perimeter w (Some opts) = (w, Inert)"
  by (simp add: Perimeter_def)

theorem zero_outline_inert_witness:
  "opt_outline (plainOptions (Elem boxElement) (Number (Fin 0))) = Some (Number (Fin 0)) \<and>
   \<not> noTarget (opt_target (plainOptions (Elem boxElement) (Number (Fin 0)))) \<and>
   Perimeter emptyWorld (Some (plainOptions (Elem boxElement) (Number (Fin 0)))) =
     (emptyWorld, Inert)"
  using zero_outline_inert [of "plainOptions (Elem boxElement) (Number (Fin 0))" emptyWorld]
  by (simp add: plainOptions_def)

section \<open>Properties of the monitor\<close>

lemma jge_not_jlt: "jge a b \<Longrightarrow> \<not> jlt a b"
  by (cases a; cases b) auto

lemma jlt_asym: "jlt a b \<Longrightarrow> \<not> jlt b a"
  by (cases a; cases b) auto

lemma breach_excludes_leave: "breachTest d p t e \<Longrightarrow> \<not> leaveTest d p t e"
  by (auto simp: breachTest_def leaveTest_def jgt_def dest: jge_not_jlt jlt_asym)

lemma jsub_Fin: "jsub (Fin a) (Fin b) = Fin (a - b)"
  by (simp add: jsub_def)

lemma tests_monitor_event:
  "breachTest d (p\<lparr>monitor_event := x\<rparr>) t e = breachTest d p t e"
  "leaveTest d (p\<lparr>monitor_event := x\<rparr>) t e = leaveTest d p t e"
  by (simp_all add: breachTest_def leaveTest_def maxTop_def maxLeft_def lowerEdge_def
      rightEdge_def)

lemma edges_finite:
  assumes "outline p = Array [Num (Fin a), Num (Fin b), Num (Fin c), Num (Fin l)]"
  shows "\<exists>mt ml. maxTop d p t = Fin mt \<and> maxLeft d p t = Fin ml \<and>
           lowerEdge d p t = Fin (mt + height (rects p) + (a + c)) \<and>
           rightEdge d p t = Fin (ml + width (rects p) + (b + l))"
proof -
  obtain mt where mt: "parseIntNum (Fin (offsetTop t - top (getScrollPos d) - a)) = Fin mt"
    using parseIntNum_Fin by blast
  obtain ml where ml: "parseIntNum (Fin (offsetLeft t - left (getScrollPos d) - l)) = Fin ml"
    using parseIntNum_Fin by blast
  have "maxTop d p t = Fin mt" using assms mt
    by (simp add: maxTop_def jsub_Fin del: parseIntNum.simps)
  moreover have "maxLeft d p t = Fin ml" using assms ml
    by (simp add: maxLeft_def jsub_Fin del: parseIntNum.simps)
  ultimately show ?thesis using assms
    by (simp add: lowerEdge_def rightEdge_def)
qed

text \<open>
  Claim C2, as amended. For a perimeter whose outline holds four finite integers the
  four bounds of \<^verbatim>\<open>detect\<close> are finite, the breach and the leave condition never hold
  together, and neither of them holds exactly at the positions of the closed region
  \<open>maxTop \<le> y \<le> lower edge\<close>, \<open>maxLeft \<le> x \<le> right edge\<close> that lie on its lower or
  its right edge (\<open>y\<close> equal to the lower edge, or \<open>x\<close> equal to the right edge). At every
  other position exactly one of the two conditions holds.
\<close>

theorem breach_leave_gap:
  assumes "outline p = Array [Num (Fin a), Num (Fin b), Num (Fin c), Num (Fin l)]"
  shows "\<exists>mt ml lo ri.
           maxTop d p t = Fin mt \<and> maxLeft d p t = Fin ml \<and>
           lowerEdge d p t = Fin lo \<and> rightEdge d p t = Fin ri \<and>
           lo = mt + height (rects p) + (a + c) \<and> ri = ml + width (rects p) + (b + l) \<and>
           \<not> (breachTest d p t e \<and> leaveTest d p t e) \<and>
           ((\<not> breachTest d p t e \<and> \<not> leaveTest d p t e) =
            (mt \<le> clientY e \<and> clientY e \<le> lo \<and> ml \<le> clientX e \<and> clientX e \<le> ri \<and>
             (clientY e = lo \<or> clientX e = ri)))"
proof -
  obtain mt ml where ed: "maxTop d p t = Fin mt" "maxLeft d p t = Fin ml"
      "lowerEdge d p t = Fin (mt + height (rects p) + (a + c))"
      "rightEdge d p t = Fin (ml + width (rects p) + (b + l))"
    using edges_finite [OF assms] by blast
  have br: "breachTest d p t e =
      (mt \<le> clientY e \<and> clientY e < mt + height (rects p) + (a + c) \<and>
       ml \<le> clientX e \<and> clientX e < ml + width (rects p) + (b + l))"
    by (auto simp: breachTest_def ed)
  have lv: "leaveTest d p t e =
      (clientY e < mt \<or> mt + height (rects p) + (a + c) < clientY e \<or>
       clientX e < ml \<or> ml + width (rects p) + (b + l) < clientX e)"
    by (simp add: leaveTest_def jgt_def ed)
  have excl: "\<not> (breachTest d p t e \<and> leaveTest d p t e)"
    using breach_excludes_leave by blast
  have gap: "(\<not> breachTest d p t e \<and> \<not> leaveTest d p t e) =
      (mt \<le> clientY e \<and> clientY e \<le> mt + height (rects p) + (a + c) \<and>
       ml \<le> clientX e \<and> clientX e \<le> ml + width (rects p) + (b + l) \<and>
       (clientY e = mt + height (rects p) + (a + c) \<or>
        clientX e = ml + width (rects p) + (b + l)))"
    unfolding br lv by arith
  from ed excl gap show ?thesis by blast
qed

lemma sample_edges:
  "maxTop page (armed boxElement) boxElement = Fin 100"
  "maxLeft page (armed boxElement) boxElement = Fin 100"
  "lowerEdge page (armed boxElement) boxElement = Fin 150"
  "rightEdge page (armed boxElement) boxElement = Fin 150"
  by (simp_all add: maxTop_def maxLeft_def lowerEdge_def rightEdge_def armed_def
      zeroOutline_def boxElement_def page_def getScrollPos_def orElse_def jsub_def)

theorem breach_leave_gap_witness:
  "outline (armed boxElement) = Array [Num (Fin 0), Num (Fin 0), Num (Fin 0), Num (Fin 0)] \<and>
   maxTop page (armed boxElement) boxElement = Fin 100 \<and>
   lowerEdge page (armed boxElement) boxElement = Fin 150 \<and>
   maxLeft page (armed boxElement) boxElement = Fin 100 \<and>
   rightEdge page (armed boxElement) boxElement = Fin 150 \<and>
   \<not> breachTest page (armed boxElement) boxElement \<lparr>clientX = 150, clientY = 120\<rparr> \<and>
   \<not> leaveTest page (armed boxElement) boxElement \<lparr>clientX = 150, clientY = 120\<rparr>"
proof -
  have ol: "outline (armed boxElement) =
      Array [Num (Fin 0), Num (Fin 0), Num (Fin 0), Num (Fin 0)]"
    by (simp add: armed_def zeroOutline_def)
  show ?thesis
    using breach_leave_gap [OF ol, of page boxElement "\<lparr>clientX = 150, clientY = 120\<rparr>"] ol
    by (auto simp: sample_edges)
qed

text \<open>
  Claim C2 as stated fails: for the 50 by 50 box at (100, 100) with a zero outline the
  pointer at (125, 150) is on the lower edge, where the breach test's \<open>y < 150\<close> and the
  leave test's \<open>y > 150\<close> are both false.
\<close>

theorem boundary_pixel_gap:
  "\<not> (breachTest page (armed boxElement) boxElement \<lparr>clientX = 125, clientY = 150\<rparr> \<or>
      leaveTest page (armed boxElement) boxElement \<lparr>clientX = 125, clientY = 150\<rparr>)"
  by (simp add: breachTest_def leaveTest_def maxTop_def maxLeft_def lowerEdge_def
      rightEdge_def armed_def zeroOutline_def boxElement_def page_def getScrollPos_def
      orElse_def jsub_def jgt_def)

text \<open>
  The example instances are what the constructor builds: the element with layout
  offsets (0, 0) below resolves to the box of claim C6 and is accepted.
\<close>

lemma armed_constructed:
  "snd (Perimeter emptyWorld (Some (plainOptions (Elem nestedElement) zeroOutline))) =
   Constructed (armed nestedElement)"
  by (simp add: Perimeter_def plainOptions_def emptyWorld_def page_def getClientRect_def
      getScrollPos_def orElse_def nestedElement_def boxElement_def zeroOutline_def
      formatOutline_entries formatEntry_def init_def armed_def addEventListener_def Let_def)

text \<open>
  Claim C6, as amended. For a target whose resolved box is
  \<open>{top: 100, left: 100, width: 50, height: 50}\<close> and whose layout offsets \<^verbatim>\<open>offsetTop\<close> and
  \<^verbatim>\<open>offsetLeft\<close> are both 100, with outline \<open>[0, 0, 0, 0]\<close> and no scroll offset, a pointer
  update at (125, 125) on the armed instance appends the position to the breach log,
  calls \<^verbatim>\<open>onBreach\<close> with the event (when it is a function) and sets the alarm; a pointer
  update at (200, 200) calls nothing and leaves the instance armed.
\<close>

theorem box_scenario:
  assumes "target p = Some t" and "offsetTop t = 100" and "offsetLeft t = 100"
    and "rects p = \<lparr> width = 50, height = 50, rect_top = 100, rect_left = 100 \<rparr>"
    and "outline p = zeroOutline"
    and "top (getScrollPos d) = 0" and "left (getScrollPos d) = 0"
    and "\<not> alarm p"
  shows "observe d p \<lparr>clientX = 125, clientY = 125\<rparr> =
           (None,
            p\<lparr>monitor_event := Some \<lparr>clientX = 125, clientY = 125\<rparr>,
              breaches := breaches p @ [(125, 125)], alarm := True\<rparr>,
            if onBreach (options p)
            then [OnBreach (EventObject \<lparr>clientX = 125, clientY = 125\<rparr>)] else []) \<and>
         observe d p \<lparr>clientX = 200, clientY = 200\<rparr> =
           (None, p\<lparr>monitor_event := Some \<lparr>clientX = 200, clientY = 200\<rparr>\<rparr>, [])"
  using assms
  by (simp add: observe_def detect_def breachTest_def maxTop_def maxLeft_def lowerEdge_def
      rightEdge_def zeroOutline_def jsub_def trigger_def)

theorem box_scenario_witness:
  "target (armed boxElement) = Some boxElement \<and>
   offsetTop boxElement = 100 \<and> offsetLeft boxElement = 100 \<and>
   getClientRect page (Some boxElement) = Inr (rects (armed boxElement)) \<and>
   \<not> alarm (armed boxElement) \<and>
   fst (snd (observe page (armed boxElement) \<lparr>clientX = 125, clientY = 125\<rparr>)) =
     (armed boxElement)\<lparr>monitor_event := Some \<lparr>clientX = 125, clientY = 125\<rparr>,
        breaches := [(125, 125)], alarm := True\<rparr> \<and>
   snd (snd (observe page (armed boxElement) \<lparr>clientX = 125, clientY = 125\<rparr>)) =
     [OnBreach (EventObject \<lparr>clientX = 125, clientY = 125\<rparr>)] \<and>
   observe page (armed boxElement) \<lparr>clientX = 200, clientY = 200\<rparr> =
     (None, (armed boxElement)\<lparr>monitor_event := Some \<lparr>clientX = 200, clientY = 200\<rparr>\<rparr>, [])"
proof -
  have h: "target (armed boxElement) = Some boxElement" "offsetTop boxElement = 100"
    "offsetLeft boxElement = 100"
    "rects (armed boxElement) = \<lparr> width = 50, height = 50, rect_top = 100, rect_left = 100 \<rparr>"
    "outline (armed boxElement) = zeroOutline"
    "top (getScrollPos page) = 0" "left (getScrollPos page) = 0" "\<not> alarm (armed boxElement)"
    by (simp_all add: armed_def boxElement_def page_def getScrollPos_def orElse_def)
  have g: "getClientRect page (Some boxElement) = Inr (rects (armed boxElement))"
    by (simp add: getClientRect_def armed_def boxElement_def page_def getScrollPos_def
        orElse_def)
  have o: "onBreach (options (armed boxElement))" "breaches (armed boxElement) = []"
    by (simp_all add: armed_def plainOptions_def)
  show ?thesis
    using box_scenario [OF h] h g o by simp
qed

text \<open>
  Claim C6 as stated fails: \<^verbatim>\<open>detect\<close> measures from the target's layout offsets, not
  from the resolved box. An element with the same resolved box inside a positioned
  container has the offsets (0, 0); the pointer at (125, 125) is then outside
  \<open>[0, 50) \<times> [0, 50)\<close> and no breach fires.
\<close>

theorem nested_target_no_breach:
  "getClientRect page (target (armed nestedElement)) =
     Inr \<lparr> width = 50, height = 50, rect_top = 100, rect_left = 100 \<rparr> \<and>
   rects (armed nestedElement) = \<lparr> width = 50, height = 50, rect_top = 100, rect_left = 100 \<rparr> \<and>
   outline (armed nestedElement) = Array [Num (Fin 0), Num (Fin 0), Num (Fin 0), Num (Fin 0)] \<and>
   getScrollPos page = \<lparr> top = 0, left = 0 \<rparr> \<and>
   \<not> alarm (armed nestedElement) \<and>
   observe page (armed nestedElement) \<lparr>clientX = 125, clientY = 125\<rparr> =
     (None, (armed nestedElement)\<lparr>monitor_event := Some \<lparr>clientX = 125, clientY = 125\<rparr>\<rparr>, [])"
  by (simp add: observe_def detect_def breachTest_def maxTop_def maxLeft_def lowerEdge_def
      rightEdge_def zeroOutline_def jsub_def armed_def nestedElement_def boxElement_def
      page_def getScrollPos_def orElse_def getClientRect_def)

lemma observe_breached_inside:
  assumes "alarm p" and "target p = Some t" and "breachTest d p t e"
  shows "observe d p e = (None, p\<lparr>monitor_event := Some e\<rparr>, [])"
  using assms breach_excludes_leave [of d p t e]
  by (simp add: observe_def detect_def tests_monitor_event)

lemma observeAll_breached_inside:
  assumes "alarm p" and "target p = Some t" and "\<forall>e\<in>set es. breachTest d p t e"
  shows "observeAll d p es =
           (None, (if es = [] then p else p\<lparr>monitor_event := Some (last es)\<rparr>), [])"
  using assms
proof (induction es arbitrary: p)
  case Nil
  then show ?case by simp
next
  case (Cons e es)
  let ?p1 = "p\<lparr>monitor_event := Some e\<rparr>"
  have step: "observe d p e = (None, ?p1, [])"
    using Cons.prems by (simp add: observe_breached_inside)
  have "alarm ?p1" "target ?p1 = Some t" "\<forall>e\<in>set es. breachTest d ?p1 t e"
    using Cons.prems by (simp_all add: tests_monitor_event)
  then have "observeAll d ?p1 es =
      (None, (if es = [] then ?p1 else ?p1\<lparr>monitor_event := Some (last es)\<rparr>), [])"
    by (rule Cons.IH)
  with step show ?case by simp
qed

lemma observe_breach_call:
  assumes "observe d p e = (r, p', cs)" and "OnBreach x \<in> set cs"
  shows "\<not> alarm p \<and> alarm p' \<and> breaches p' = breaches p @ [(clientX e, clientY e)]"
  using assms
  by (auto simp: observe_def detect_def trigger_def Let_def split: option.splits if_splits)

lemma observe_breached_frame:
  assumes "alarm p" and "observe d p e = (r, p', cs)"
  shows "breaches p' = breaches p \<and> OnBreach x \<notin> set cs"
  using assms
  by (auto simp: observe_def detect_def trigger_def Let_def split: option.splits if_splits)

text \<open>
  Claim C7. From a breached instance, a run of pointer updates that all satisfy the
  breach test ends without error, calls no callback, leaves the breach log as it was
  and the instance breached. More generally one update of a breached instance never
  appends to the breach log and never calls \<^verbatim>\<open>onBreach\<close>, whatever the position; and an
  update that calls \<^verbatim>\<open>onBreach\<close> started armed, ends breached and appended exactly its
  position.
\<close>

theorem no_refire_while_breached:
  "(alarm p \<and> target p = Some t \<and> (\<forall>e\<in>set es. breachTest d p t e) \<longrightarrow>
      (\<exists>p'. observeAll d p es = (None, p', []) \<and> breaches p' = breaches p \<and> alarm p')) \<and>
   (alarm p \<and> observe d p e = (r, q, cs) \<longrightarrow> breaches q = breaches p \<and> OnBreach x \<notin> set cs) \<and>
   (observe d p0 e0 = (r0, q0, cs0) \<and> OnBreach x0 \<in> set cs0 \<longrightarrow>
      \<not> alarm p0 \<and> alarm q0 \<and> breaches q0 = breaches p0 @ [(clientX e0, clientY e0)])"
proof (intro conjI impI)
  assume a: "alarm p \<and> target p = Some t \<and> (\<forall>e\<in>set es. breachTest d p t e)"
  then have "observeAll d p es =
      (None, (if es = [] then p else p\<lparr>monitor_event := Some (last es)\<rparr>), [])"
    by (simp add: observeAll_breached_inside)
  with a show "\<exists>p'. observeAll d p es = (None, p', []) \<and> breaches p' = breaches p \<and> alarm p'"
    by auto
next
  assume "alarm p \<and> observe d p e = (r, q, cs)"
  then show "breaches q = breaches p" using observe_breached_frame by blast
next
  assume "alarm p \<and> observe d p e = (r, q, cs)"
  then show "OnBreach x \<notin> set cs" using observe_breached_frame by blast
next
  assume "observe d p0 e0 = (r0, q0, cs0) \<and> OnBreach x0 \<in> set cs0"
  then show "\<not> alarm p0" using observe_breach_call by blast
next
  assume "observe d p0 e0 = (r0, q0, cs0) \<and> OnBreach x0 \<in> set cs0"
  then show "alarm q0" using observe_breach_call by blast
next
  assume "observe d p0 e0 = (r0, q0, cs0) \<and> OnBreach x0 \<in> set cs0"
  then show "breaches q0 = breaches p0 @ [(clientX e0, clientY e0)]"
    using observe_breach_call by blast
qed

lemma sample_breach:
  "breachTest page (breached boxElement) boxElement \<lparr>clientX = 130, clientY = 140\<rparr>"
  "breachTest page (breached boxElement) boxElement \<lparr>clientX = 101, clientY = 149\<rparr>"
  "observe page (armed boxElement) \<lparr>clientX = 125, clientY = 125\<rparr> =
     (None, breached boxElement, [OnBreach (EventObject \<lparr>clientX = 125, clientY = 125\<rparr>)])"
  "observe page (breached boxElement) \<lparr>clientX = 130, clientY = 140\<rparr> =
     (None, (breached boxElement)\<lparr>monitor_event := Some \<lparr>clientX = 130, clientY = 140\<rparr>\<rparr>, [])"
  by (simp_all add: observe_def detect_def breachTest_def leaveTest_def maxTop_def maxLeft_def
      lowerEdge_def rightEdge_def zeroOutline_def jsub_def jgt_def armed_def breached_def
      boxElement_def page_def getScrollPos_def orElse_def trigger_def plainOptions_def)

theorem no_refire_while_breached_witness:
  "alarm (breached boxElement) \<and> target (breached boxElement) = Some boxElement \<and>
   breachTest page (breached boxElement) boxElement \<lparr>clientX = 130, clientY = 140\<rparr> \<and>
   breachTest page (breached boxElement) boxElement \<lparr>clientX = 101, clientY = 149\<rparr> \<and>
   (\<exists>p'. observeAll page (breached boxElement)
            [\<lparr>clientX = 130, clientY = 140\<rparr>, \<lparr>clientX = 101, clientY = 149\<rparr>] = (None, p', []) \<and>
         breaches p' = [(125, 125)] \<and> alarm p') \<and>
   observe page (armed boxElement) \<lparr>clientX = 125, clientY = 125\<rparr> =
     (None, breached boxElement, [OnBreach (EventObject \<lparr>clientX = 125, clientY = 125\<rparr>)]) \<and>
   \<not> alarm (armed boxElement)"
proof -
  have b: "alarm (breached boxElement)" "target (breached boxElement) = Some boxElement"
    "breaches (breached boxElement) = [(125, 125)]"
    by (simp_all add: breached_def armed_def)
  show ?thesis
    using no_refire_while_breached [of "breached boxElement" boxElement
        "[\<lparr>clientX = 130, clientY = 140\<rparr>, \<lparr>clientX = 101, clientY = 149\<rparr>]" page
        "\<lparr>clientX = 130, clientY = 140\<rparr>" None
        "(breached boxElement)\<lparr>monitor_event := Some \<lparr>clientX = 130, clientY = 140\<rparr>\<rparr>" "[]"
        "EventObject \<lparr>clientX = 125, clientY = 125\<rparr>"
        "armed boxElement" "\<lparr>clientX = 125, clientY = 125\<rparr>" None "breached boxElement"
        "[OnBreach (EventObject \<lparr>clientX = 125, clientY = 125\<rparr>)]"
        "EventObject \<lparr>clientX = 125, clientY = 125\<rparr>"]
      b sample_breach
    by simp
qed

section \<open>Properties of recalculation\<close>

lemma reflowIfDebug_frame:
  "alarm (reflowIfDebug p) = alarm p"
  "breaches (reflowIfDebug p) = breaches p"
  "options (reflowIfDebug p) = options p"
  "target (reflowIfDebug p) = target p"
  "monitor_event (reflowIfDebug p) = monitor_event p"
  "outline (reflowIfDebug p) = outline p"
  "rects (reflowIfDebug p) = rects p"
  by (simp_all add: reflowIfDebug_def)

lemma map_update_same:
  assumes "f y = f (xs ! i)"
  shows "map f (xs[i := y]) = map f xs"
proof (cases "i < length xs")
  case True
  with assms have "(map f xs)[i := f y] = map f xs"
    by (metis list_update_id nth_map)
  then show ?thesis by (simp add: map_update)
next
  case False
  then have "length xs \<le> i" by simp
  then have "xs[i := y] = xs" by (rule list_update_beyond)
  then show ?thesis by simp
qed

lemma recalculate_loop_map:
  assumes "\<And>p r. f (reflowIfDebug (p\<lparr>rects := r\<rparr>)) = f p"
  shows "map f (snd (recalculate_loop d insts n)) = map f insts"
proof (induction n arbitrary: insts)
  case 0
  show ?case by simp
next
  case (Suc i)
  show ?case
  proof (cases "getClientRect d (target (insts ! i))")
    case (Inl err)
    then show ?thesis by simp
  next
    case (Inr r)
    have "map f (snd (recalculate_loop d
            (insts[i := reflowIfDebug ((insts ! i)\<lparr>rects := r\<rparr>)]) i)) =
          map f (insts[i := reflowIfDebug ((insts ! i)\<lparr>rects := r\<rparr>)])"
      by (rule Suc.IH)
    also have "\<dots> = map f insts"
      by (rule map_update_same) (rule assms)
    finally show ?thesis using Inr by simp
  qed
qed

lemma recalculate_map:
  assumes "\<And>p r. f (reflowIfDebug (p\<lparr>rects := r\<rparr>)) = f p"
    and "\<And>p v. f (reflowIfDebug (p\<lparr>outline := v\<rparr>)) = f p"
  shows "map f (instances (snd (recalculate w this))) = map f (instances w)"
proof (cases this)
  case (ThisInstance k)
  then show ?thesis
    by (simp add: recalculate_def Let_def map_update_same assms(2))
next
  case ThisWindow
  have "map f (snd (recalculate_loop (doc w) (instances w) (length (instances w)))) =
      map f (instances w)"
    using assms(1) by (rule recalculate_loop_map)
  with ThisWindow show ?thesis
    by (simp add: recalculate_def case_prod_beta)
qed

lemma recalculate_world:
  "doc (snd (recalculate w this)) = doc w"
  "listeners (snd (recalculate w this)) = listeners w"
  "eventModel (snd (recalculate w this)) = eventModel w"
  by (cases this; simp add: recalculate_def Let_def case_prod_beta)+

text \<open>
  Claim C4. Whatever the page and the receiver (an instance, or the window for the
  registry-wide walk), and also when the call raises, \<^verbatim>\<open>recalculate\<close> leaves the alarm
  state and the breach log of every registered instance as they were, and likewise the
  options, the target and the monitor's event, the listeners and the document. What
  may differ is the outline, the cached rectangle and the box of the debug overlay
  that is reflowed from them.
\<close>

theorem recalculate_frame:
  "map alarm (instances (snd (recalculate w this))) = map alarm (instances w) \<and>
   map breaches (instances (snd (recalculate w this))) = map breaches (instances w) \<and>
   map options (instances (snd (recalculate w this))) = map options (instances w) \<and>
   map target (instances (snd (recalculate w this))) = map target (instances w) \<and>
   map monitor_event (instances (snd (recalculate w this))) = map monitor_event (instances w) \<and>
   listeners (snd (recalculate w this)) = listeners w \<and>
   doc (snd (recalculate w this)) = doc w"
proof -
  have "map alarm (instances (snd (recalculate w this))) = map alarm (instances w)"
    by (rule recalculate_map) (simp_all add: reflowIfDebug_frame)
  moreover have "map breaches (instances (snd (recalculate w this))) = map breaches (instances w)"
    by (rule recalculate_map) (simp_all add: reflowIfDebug_frame)
  moreover have "map options (instances (snd (recalculate w this))) = map options (instances w)"
    by (rule recalculate_map) (simp_all add: reflowIfDebug_frame)
  moreover have "map target (instances (snd (recalculate w this))) = map target (instances w)"
    by (rule recalculate_map) (simp_all add: reflowIfDebug_frame)
  moreover have "map monitor_event (instances (snd (recalculate w this))) =
      map monitor_event (instances w)"
    by (rule recalculate_map) (simp_all add: reflowIfDebug_frame)
  ultimately show ?thesis by (simp add: recalculate_world)
qed

lemma recalculate_loop_beyond:
  "recalculate_loop d insts n = (r, insts') \<Longrightarrow> n \<le> k \<Longrightarrow> insts' ! k = insts ! k"
proof (induction n arbitrary: insts)
  case 0
  then show ?case by simp
next
  case (Suc i)
  show ?case
  proof (cases "getClientRect d (target (insts ! i))")
    case (Inl err)
    with Suc.prems show ?thesis by simp
  next
    case (Inr rc)
    let ?insts1 = "insts[i := reflowIfDebug ((insts ! i)\<lparr>rects := rc\<rparr>)]"
    from Inr Suc.prems have "recalculate_loop d ?insts1 i = (r, insts')" by simp
    moreover from Suc.prems have "i \<le> k" by simp
    ultimately have "insts' ! k = ?insts1 ! k" by (rule Suc.IH)
    with Suc.prems show ?thesis by simp
  qed
qed

lemma recalculate_loop_rects:
  "recalculate_loop d insts n = (None, insts') \<Longrightarrow> n \<le> length insts \<Longrightarrow> k < n \<Longrightarrow>
   getClientRect d (target (insts ! k)) = Inr (rects (insts' ! k))"
proof (induction n arbitrary: insts)
  case 0
  then show ?case by simp
next
  case (Suc i)
  show ?case
  proof (cases "getClientRect d (target (insts ! i))")
    case (Inl err)
    with Suc.prems show ?thesis by simp
  next
    case (Inr rc)
    let ?insts1 = "insts[i := reflowIfDebug ((insts ! i)\<lparr>rects := rc\<rparr>)]"
    from Inr Suc.prems have loop: "recalculate_loop d ?insts1 i = (None, insts')" by simp
    show ?thesis
    proof (cases "k = i")
      case True
      from loop have "insts' ! i = ?insts1 ! i" by (rule recalculate_loop_beyond) simp
      with Suc.prems have "rects (insts' ! i) = rc" by (simp add: reflowIfDebug_frame)
      with Inr True show ?thesis by simp
    next
      case False
      with Suc.prems have k: "k < i" by simp
      from Suc.prems have "i \<le> length ?insts1" by simp
      with loop have "getClientRect d (target (?insts1 ! k)) = Inr (rects (insts' ! k))"
        using k by (rule Suc.IH)
      with False show ?thesis by simp
    qed
  qed
qed

lemma map_eq_nth: "map f xs = map f ys \<Longrightarrow> k < length ys \<Longrightarrow> f (xs ! k) = f (ys ! k)"
  by (metis length_map nth_map)

text \<open>
  Claim C3, as amended. Called on a registered instance, \<^verbatim>\<open>recalculate\<close> returns
  normally, replaces the outline by \<^verbatim>\<open>formatOutline\<close> of its current value (whatever was
  written there since) and keeps the cached rectangle. The rectangle is re-resolved
  only by the call whose receiver is not an instance: when that walk returns normally,
  each cached rectangle is \<^verbatim>\<open>getClientRect\<close> of the instance's target and each outline
  is as before.
\<close>

theorem recalculate_instance_outline:
  "(k < length (instances w) \<longrightarrow>
      (\<exists>w'. recalculate w (ThisInstance k) = (None, w') \<and>
            outline (instances w' ! k) = formatOutline (outline (instances w ! k)) \<and>
            rects (instances w' ! k) = rects (instances w ! k))) \<and>
   (recalculate w ThisWindow = (None, w2) \<and> k < length (instances w) \<longrightarrow>
      getClientRect (doc w) (target (instances w ! k)) = Inr (rects (instances w2 ! k)) \<and>
      outline (instances w2 ! k) = outline (instances w ! k))"
proof (intro conjI impI)
  assume "k < length (instances w)"
  then show "\<exists>w'. recalculate w (ThisInstance k) = (None, w') \<and>
      outline (instances w' ! k) = formatOutline (outline (instances w ! k)) \<and>
      rects (instances w' ! k) = rects (instances w ! k)"
    by (simp add: recalculate_def Let_def reflowIfDebug_frame)
next
  assume a: "recalculate w ThisWindow = (None, w2) \<and> k < length (instances w)"
  obtain r insts where loop:
    "recalculate_loop (doc w) (instances w) (length (instances w)) = (r, insts)"
    by (cases "recalculate_loop (doc w) (instances w) (length (instances w))")
  with a have r: "r = None" and w2: "instances w2 = insts"
    by (auto simp: recalculate_def)
  from loop r
  have "recalculate_loop (doc w) (instances w) (length (instances w)) = (None, insts)"
    by simp
  with a have "getClientRect (doc w) (target (instances w ! k)) = Inr (rects (insts ! k))"
    using recalculate_loop_rects [of "doc w" "instances w" "length (instances w)" insts k]
    by simp
  with w2 show "getClientRect (doc w) (target (instances w ! k)) = Inr (rects (instances w2 ! k))"
    by simp
next
  assume a: "recalculate w ThisWindow = (None, w2) \<and> k < length (instances w)"
  have "map outline (snd (recalculate_loop (doc w) (instances w) (length (instances w)))) =
      map outline (instances w)"
    by (rule recalculate_loop_map) (simp add: reflowIfDebug_frame)
  moreover from a
  have "instances w2 = snd (recalculate_loop (doc w) (instances w) (length (instances w)))"
    by (auto simp: recalculate_def case_prod_beta)
  ultimately have "map outline (instances w2) = map outline (instances w)"
    by (simp only:)
  moreover from a have "k < length (instances w)" by simp
  ultimately show "outline (instances w2 ! k) = outline (instances w ! k)"
    by (rule map_eq_nth)
qed

lemma stale_facts:
  "length (instances staleWorld) = 1"
  "outline (instances staleWorld ! 0) = Number (Fin 20)"
  "rects (instances staleWorld ! 0) = \<lparr> width = 50, height = 50, rect_top = 100, rect_left = 100 \<rparr>"
  "getClientRect (doc staleWorld) (target (instances staleWorld ! 0)) =
     Inr \<lparr> width = 50, height = 50, rect_top = 300, rect_left = 100 \<rparr>"
  "formatOutline (Number (Fin 20)) = Array [Num (Fin 20), Num (Fin 20), Num (Fin 20), Num (Fin 20)]"
  by (simp_all add: staleWorld_def emptyWorld_def armed_def movedElement_def boxElement_def
      page_def getClientRect_def getScrollPos_def orElse_def formatOutline_entries
      formatEntry_def)

theorem recalculate_instance_outline_witness:
  "(0::nat) < length (instances staleWorld) \<and>
   fst (recalculate staleWorld ThisWindow) = None \<and>
   (\<exists>w'. recalculate staleWorld (ThisInstance 0) = (None, w') \<and>
      outline (instances w' ! 0) = Array [Num (Fin 20), Num (Fin 20), Num (Fin 20), Num (Fin 20)] \<and>
      rects (instances w' ! 0) = \<lparr> width = 50, height = 50, rect_top = 100, rect_left = 100 \<rparr>) \<and>
   rects (instances (snd (recalculate staleWorld ThisWindow)) ! 0) =
     \<lparr> width = 50, height = 50, rect_top = 300, rect_left = 100 \<rparr> \<and>
   outline (instances (snd (recalculate staleWorld ThisWindow)) ! 0) = Number (Fin 20)"
proof -
  have "fst (recalculate_loop (doc staleWorld) (instances staleWorld) (Suc 0)) = None"
    by (simp add: stale_facts)
  then have e: "fst (recalculate staleWorld ThisWindow) = None"
    by (simp add: recalculate_def stale_facts case_prod_beta)
  then have p: "recalculate staleWorld ThisWindow = (None, snd (recalculate staleWorld ThisWindow))"
    by (metis prod.collapse)
  note T = recalculate_instance_outline
    [of 0 staleWorld "snd (recalculate staleWorld ThisWindow)"]
  have len: "0 < length (instances staleWorld)" by (simp add: stale_facts)
  from T len have inst: "\<exists>w'. recalculate staleWorld (ThisInstance 0) = (None, w') \<and>
      outline (instances w' ! 0) = formatOutline (outline (instances staleWorld ! 0)) \<and>
      rects (instances w' ! 0) = rects (instances staleWorld ! 0)"
    by blast
  from T p len have win:
    "getClientRect (doc staleWorld) (target (instances staleWorld ! 0)) =
       Inr (rects (instances (snd (recalculate staleWorld ThisWindow)) ! 0)) \<and>
     outline (instances (snd (recalculate staleWorld ThisWindow)) ! 0) =
       outline (instances staleWorld ! 0)"
    by blast
  from inst have inst': "\<exists>w'. recalculate staleWorld (ThisInstance 0) = (None, w') \<and>
      outline (instances w' ! 0) =
        Array [Num (Fin 20), Num (Fin 20), Num (Fin 20), Num (Fin 20)] \<and>
      rects (instances w' ! 0) = \<lparr> width = 50, height = 50, rect_top = 100, rect_left = 100 \<rparr>"
    by (simp only: stale_facts)
  from win have "Inr (rects (instances (snd (recalculate staleWorld ThisWindow)) ! 0)) =
      (Inr \<lparr> width = 50, height = 50, rect_top = 300, rect_left = 100 \<rparr> :: error + clientRect)"
    by (simp only: stale_facts)
  then have r: "rects (instances (snd (recalculate staleWorld ThisWindow)) ! 0) =
      \<lparr> width = 50, height = 50, rect_top = 300, rect_left = 100 \<rparr>"
    by (simp only: sum.inject)
  from win have o: "outline (instances (snd (recalculate staleWorld ThisWindow)) ! 0) =
      Number (Fin 20)"
    by (simp only: stale_facts)
  from len e inst' r o show ?thesis by (intro conjI)
qed

text \<open>
  Claim C3 as stated fails: after the layout change \<^verbatim>\<open>getClientRect\<close> of the target is
  the box at (300, 100), and the instance call leaves the cached box at (100, 100).
\<close>

theorem recalculate_instance_keeps_rectangle:
  "getClientRect (doc staleWorld) (target (instances staleWorld ! 0)) =
     Inr \<lparr> width = 50, height = 50, rect_top = 300, rect_left = 100 \<rparr> \<and>
   fst (recalculate staleWorld (ThisInstance 0)) = None \<and>
   rects (instances (snd (recalculate staleWorld (ThisInstance 0))) ! 0) =
     \<lparr> width = 50, height = 50, rect_top = 100, rect_left = 100 \<rparr>"
  by (simp add: recalculate_def Let_def reflowIfDebug_frame stale_facts)

end
